theory Spec2Isabelle
  imports Complex_Main
begin

section \<open>The training driver of train.py\<close>

text \<open>
  The development embeds \<^verbatim>\<open>Trainer.train_and_evaluate\<close>, \<^verbatim>\<open>Trainer.write_metrics\<close> and
  \<^verbatim>\<open>Trainer.compare_predictions\<close> of \<^verbatim>\<open>train.py\<close>.  The network, the losses, the metrics,
  the validation routine and the clock are collaborators: what they return in a given
  iteration is an input of the model (\<open>batch_obs\<close>); what the driver does to the outside
  (optimizer steps, log calls, checkpoint calls) is recorded, in order, in a trace of
  events.  Python floats are modelled as reals, Python integers as \<open>int\<close>.
\<close>

subsection \<open>Exceptions\<close>

datatype py_error = ZeroDivisionError | KeyError | TypeError | EmptyAccumulator

subsection \<open>RunningAverage\<close>

text \<open>
  Modelled from the spec: the class \<^verbatim>\<open>RunningAverage\<close> lives in \<^verbatim>\<open>utils.py\<close>, which is not
  part of the sources at hand; \<^verbatim>\<open>train.py\<close> only instantiates it, calls
  \<^verbatim>\<open>update(value)\<close> or \<^verbatim>\<open>update(value, weight)\<close> and reads it by calling the object.
  The spec describes it as a mutable accumulator holding (sum, count), with
  \<^verbatim>\<open>update(value, weight=1)\<close> and a read that returns sum/count and fails with a defined
  empty-accumulator condition when count is zero.
\<close>

record RunningAverage =
  ra_sum :: real
  ra_count :: nat

definition RunningAverage_new :: RunningAverage where
  "RunningAverage_new = \<lparr>ra_sum = 0, ra_count = 0\<rparr>"

definition RunningAverage_update :: "RunningAverage \<Rightarrow> real \<Rightarrow> nat \<Rightarrow> RunningAverage" where
  "RunningAverage_update a v w = a\<lparr>ra_sum := ra_sum a + v * real w, ra_count := ra_count a + w\<rparr>"

definition RunningAverage_call :: "RunningAverage \<Rightarrow> py_error + real" where
  "RunningAverage_call a =
     (if ra_count a = 0 then Inl EmptyAccumulator else Inr (ra_sum a / real (ra_count a)))"

text \<open>A sequence of \<^verbatim>\<open>update(value, weight)\<close> calls, oldest first.\<close>

fun updates :: "RunningAverage \<Rightarrow> (real \<times> nat) list \<Rightarrow> RunningAverage" where
  "updates a [] = a"
| "updates a ((v, w) # us) = updates (RunningAverage_update a v w) us"

subsection \<open>The step-decay schedule\<close>

text \<open>
  Modelled from the spec: \<^verbatim>\<open>torch.optim.lr_scheduler.StepLR\<close> is library code, not part of the
  sources at hand.  The spec describes it as a step-decay schedule that multiplies the
  learning rate by the decay factor every \<open>step_size\<close> epochs; \<^verbatim>\<open>train.py\<close> builds it with
  \<^verbatim>\<open>gamma = 0.1\<close> on the optimizer and calls \<^verbatim>\<open>step()\<close>.  The record holds the learning rate
  of the optimizer the schedule drives and the number of \<^verbatim>\<open>step()\<close> calls so far.  A
  period of zero makes the period test of \<^verbatim>\<open>step()\<close> divide by zero.
\<close>

record StepLR =
  sched_lr :: real
  last_epoch :: int
  step_size :: int
  gamma :: real

definition StepLR_new :: "real \<Rightarrow> int \<Rightarrow> real \<Rightarrow> StepLR" where
  "StepLR_new base n g = \<lparr>sched_lr = base, last_epoch = 0, step_size = n, gamma = g\<rparr>"

definition StepLR_step :: "StepLR \<Rightarrow> py_error + StepLR" where
  "StepLR_step sch =
     (let e = last_epoch sch + 1 in
      if step_size sch = 0 then Inl ZeroDivisionError
      else if e mod step_size sch = 0
        then Inr (sch\<lparr>sched_lr := sched_lr sch * gamma sch, last_epoch := e\<rparr>)
        else Inr (sch\<lparr>last_epoch := e\<rparr>))"

subsection \<open>Configuration, collaborators and events\<close>

text \<open>The keys of the \<^verbatim>\<open>config\<close> dictionary that \<^verbatim>\<open>train_and_evaluate\<close> reads.\<close>

record config =
  batch_size :: int
  lr :: real
  lr_scheduler_step_size :: int
  start_epoch :: int
  epochs :: int
  training_loss_log_interval :: int
  other_metrics_log_interval :: int
  test_batch_size :: int

text \<open>
  What the collaborators return in one iteration: the number of images of the batch
  (\<^verbatim>\<open>images.shape[0]\<close>), the two losses, the measured duration
  \<^verbatim>\<open>time_end - time_start\<close>, the metrics of \<^verbatim>\<open>evaluate_predictions\<close> and the loss and
  metrics of \<^verbatim>\<open>evaluate\<close>.  A metrics dictionary is an association list in iteration order.
\<close>

record batch_obs =
  n_images :: nat
  per_pixel_loss :: real
  feature_loss :: real
  duration :: real
  metrics :: "(string \<times> real) list"
  test_loss :: real
  test_metrics :: "(string \<times> real) list"

text \<open>
  The environment of a run: \<^verbatim>\<open>len(train_dataloader)\<close>, the observations by epoch and
  iteration, and the learning rate the optimizer has after \<^verbatim>\<open>load_checkpoint\<close> (code of
  \<^verbatim>\<open>utils.py\<close>) as a function of the one it was constructed with.
\<close>

record env =
  num_batches :: nat
  observe :: "int \<Rightarrow> nat \<Rightarrow> batch_obs"
  restored_lr :: "real \<Rightarrow> real"

datatype event =
    TrainStep int nat
  | PrintProgress int nat nat real real int
  | WandbLog string real int
  | WandbLogImages string int
  | SummarySet string real
  | Evaluate int
  | SaveCheckpoint int bool
  | LrSchedulerStep
  | EmptyCache
  | SaveEpoch int

subsection \<open>The state of the driver\<close>

text \<open>
  The local variables of \<^verbatim>\<open>train_and_evaluate\<close>.  The model and the optimizer are opaque;
  they change in \<^verbatim>\<open>optimizer.step()\<close> only, which \<open>optimizer_steps\<close> counts.  \<open>eta\<close> is
  the number of seconds handed to \<^verbatim>\<open>datetime.timedelta\<close>, unassigned before the first
  iteration.
\<close>

record trainer_state =
  best_rmse :: real
  is_best :: bool
  best_test_rmse :: real
  lr_scheduler :: StepLR
  wandb_step :: int
  accumulated_per_pixel_loss :: RunningAverage
  accumulated_feature_loss :: RunningAverage
  accumulated_iteration_time :: RunningAverage
  eta :: "int option"
  optimizer_steps :: nat
  trace :: "event list"

type_synonym outcome = "py_error option \<times> trainer_state"

definition then_do :: "outcome \<Rightarrow> (trainer_state \<Rightarrow> outcome) \<Rightarrow> outcome" where
  "then_do r f = (case r of (None, s) \<Rightarrow> f s | (Some e, s) \<Rightarrow> (Some e, s))"

definition emit :: "event list \<Rightarrow> trainer_state \<Rightarrow> trainer_state" where
  "emit evs s = s\<lparr>trace := trace s @ evs\<rparr>"

text \<open>Python's \<^verbatim>\<open>int(x)\<close> on a float truncates toward zero.\<close>

definition py_int :: "real \<Rightarrow> int" where
  "py_int x = (if 0 \<le> x then \<lfloor>x\<rfloor> else \<lceil>x\<rceil>)"

text \<open>
  Python's \<^verbatim>\<open>fmt % args\<close>: a format string with \<open>n\<close> conversion specifiers applied to a
  tuple of \<open>m\<close> arguments raises TypeError unless \<open>n = m\<close> (``not enough arguments for
  format string'', ``not all arguments converted during string formatting'').
\<close>

definition py_format :: "nat \<Rightarrow> nat \<Rightarrow> py_error option" where
  "py_format n m = (if n = m then None else Some TypeError)"

subsection \<open>write\_metrics and compare\_predictions\<close>

definition write_metrics :: "(string \<times> real) list \<Rightarrow> int \<Rightarrow> bool \<Rightarrow> event list" where
  "write_metrics ms step train =
     (if train then map (\<lambda>(key, v). WandbLog (''Train '' @ key) v step) ms
      else map (\<lambda>(key, v). WandbLog (''Validation '' @ key) v step) ms)"

definition compare_predictions :: "int \<Rightarrow> event list" where
  "compare_predictions step =
     [WandbLogImages ''Sample Validation images'' step,
      WandbLogImages ''Sample Validation depths'' step,
      WandbLogImages ''Sample Validation predictions'' step,
      WandbLogImages ''Sample Validation differences'' step]"

subsection \<open>One iteration\<close>

text \<open>
  Lines 67 to 95: forward pass, losses, backward pass, optimizer step, the three
  accumulator updates and the ETA.
\<close>

definition train_batch :: "env \<Rightarrow> int \<Rightarrow> nat \<Rightarrow> batch_obs \<Rightarrow> trainer_state \<Rightarrow> outcome" where
  "train_batch e epoch iteration ob s =
     (let s1 = s\<lparr>accumulated_per_pixel_loss :=
                  RunningAverage_update (accumulated_per_pixel_loss s) (per_pixel_loss ob) (n_images ob)\<rparr>;
          s2 = s1\<lparr>accumulated_feature_loss :=
                  RunningAverage_update (accumulated_feature_loss s1) (feature_loss ob) (n_images ob)\<rparr>;
          s3 = emit [TrainStep epoch iteration] (s2\<lparr>optimizer_steps := optimizer_steps s2 + 1\<rparr>);
          s4 = s3\<lparr>accumulated_iteration_time :=
                  RunningAverage_update (accumulated_iteration_time s3) (duration ob) 1\<rparr>
      in case RunningAverage_call (accumulated_iteration_time s4) of
           Inl err \<Rightarrow> (Some err, s4)
         | Inr avg \<Rightarrow>
             (None, s4\<lparr>eta := Some (py_int (avg * of_int (int (num_batches e) - int iteration)))\<rparr>))"

text \<open>
  Lines 97 to 101.  The format string of line 99 has four conversion specifiers
  (\<^verbatim>\<open>%d[%d/%d]\<close> and one \<^verbatim>\<open>%f\<close>) and is applied to a tuple of five values, the two
  running averages last.
\<close>

definition training_loss_log :: "config \<Rightarrow> nat \<Rightarrow> trainer_state \<Rightarrow> outcome" where
  "training_loss_log c iteration s =
     (if training_loss_log_interval c = 0 then (Some ZeroDivisionError, s)
      else if int iteration mod training_loss_log_interval c = 0 then
        (case RunningAverage_call (accumulated_per_pixel_loss s) of
           Inl err \<Rightarrow> (Some err, s)
         | Inr pp \<Rightarrow>
             (case RunningAverage_call (accumulated_feature_loss s) of
                Inl err \<Rightarrow> (Some err, s)
              | Inr fl \<Rightarrow>
                  (case py_format 4 5 of
                     Some err \<Rightarrow> (Some err, s)
                   | None \<Rightarrow>
                       (None, emit [WandbLog ''Average per-pixel loss'' pp (wandb_step s),
                                    WandbLog ''Average feature loss'' fl (wandb_step s)] s))))
      else (None, s))"

text \<open>Lines 113 to 116, 118 to 122 and 124 to 126.\<close>

definition track_best_train :: "real \<Rightarrow> trainer_state \<Rightarrow> trainer_state" where
  "track_best_train r s =
     (if r < best_rmse s
      then (emit [SummarySet ''best_train_rmse'' r] s)\<lparr>best_rmse := r, is_best := True\<rparr>
      else s)"

definition save_checkpoint :: "trainer_state \<Rightarrow> trainer_state" where
  "save_checkpoint s = emit [SaveCheckpoint (wandb_step s) (is_best s)] s"

definition track_best_test :: "real \<Rightarrow> trainer_state \<Rightarrow> trainer_state" where
  "track_best_test t s =
     (if t < best_test_rmse s
      then (emit [SummarySet ''best_test_rmse'' t] s)\<lparr>best_test_rmse := t\<rparr>
      else s)"

text \<open>
  Lines 105 to 111: the progress line with the ETA, the training metrics, the validation
  pass, the four image grids, the validation loss and the validation metrics.
\<close>

definition validation_events ::
  "config \<Rightarrow> env \<Rightarrow> int \<Rightarrow> nat \<Rightarrow> batch_obs \<Rightarrow> trainer_state \<Rightarrow> real \<Rightarrow> event list" where
  "validation_events c e epoch iteration ob s avg =
     [PrintProgress epoch iteration (num_batches e) (duration ob) avg
        (case eta s of Some t \<Rightarrow> t | None \<Rightarrow> 0)]
     @ write_metrics (metrics ob) (wandb_step s) True
     @ [Evaluate (test_batch_size c)]
     @ compare_predictions (wandb_step s)
     @ [WandbLog ''Average Validation loss on random batch'' (test_loss ob) (wandb_step s)]
     @ write_metrics (test_metrics ob) (wandb_step s) False"

text \<open>Lines 103 to 128.\<close>

definition other_metrics_log ::
  "config \<Rightarrow> env \<Rightarrow> int \<Rightarrow> nat \<Rightarrow> batch_obs \<Rightarrow> trainer_state \<Rightarrow> outcome" where
  "other_metrics_log c e epoch iteration ob s =
     (if other_metrics_log_interval c = 0 then (Some ZeroDivisionError, s)
      else if int iteration mod other_metrics_log_interval c = 0 then
        (case RunningAverage_call (accumulated_iteration_time s) of
           Inl err \<Rightarrow> (Some err, s)
         | Inr avg \<Rightarrow>
             (let s1 = emit (validation_events c e epoch iteration ob s avg) s
              in case map_of (metrics ob) ''rmse'' of
                   None \<Rightarrow> (Some KeyError, s1)
                 | Some r \<Rightarrow>
                     (let s2 = save_checkpoint (track_best_train r s1)
                      in case map_of (test_metrics ob) ''rmse'' of
                           None \<Rightarrow> (Some KeyError, s2)
                         | Some t \<Rightarrow> (None, (track_best_test t s2)\<lparr>is_best := False\<rparr>))))
      else (None, s))"

text \<open>The body of the loop over the batches, lines 67 to 128.\<close>

definition run_iteration :: "config \<Rightarrow> env \<Rightarrow> int \<Rightarrow> nat \<Rightarrow> trainer_state \<Rightarrow> outcome" where
  "run_iteration c e epoch iteration s =
     then_do (then_do (train_batch e epoch iteration (observe e epoch iteration) s)
                      (training_loss_log c iteration))
             (other_metrics_log c e epoch iteration (observe e epoch iteration))"

fun run_iterations :: "config \<Rightarrow> env \<Rightarrow> int \<Rightarrow> nat list \<Rightarrow> trainer_state \<Rightarrow> outcome" where
  "run_iterations c e epoch [] s = (None, s)"
| "run_iterations c e epoch (i # is) s =
     then_do (run_iteration c e epoch i s) (run_iterations c e epoch is)"

subsection \<open>Epochs and the whole run\<close>

text \<open>Lines 131 to 137.\<close>

definition epoch_end :: "int \<Rightarrow> trainer_state \<Rightarrow> outcome" where
  "epoch_end epoch s =
     (case StepLR_step (lr_scheduler s) of
        Inl err \<Rightarrow> (Some err, s)
      | Inr sch \<Rightarrow>
          (None, emit [LrSchedulerStep, EmptyCache, SaveEpoch epoch] (s\<lparr>lr_scheduler := sch\<rparr>)))"

text \<open>The body of the loop over the epochs, lines 64 to 137.\<close>

definition run_epoch :: "config \<Rightarrow> env \<Rightarrow> int \<Rightarrow> trainer_state \<Rightarrow> outcome" where
  "run_epoch c e epoch s =
     then_do (run_iterations c e epoch [0..<num_batches e] (s\<lparr>wandb_step := wandb_step s + 1\<rparr>))
             (epoch_end epoch)"

fun run_epochs :: "config \<Rightarrow> env \<Rightarrow> int list \<Rightarrow> trainer_state \<Rightarrow> outcome" where
  "run_epochs c e [] s = (None, s)"
| "run_epochs c e (epoch # eps) s = then_do (run_epoch c e epoch s) (run_epochs c e eps)"

text \<open>Lines 54 and 55: one \<^verbatim>\<open>lr_scheduler.step()\<close> for each epoch already done.\<close>

fun done_epochs_steps :: "nat \<Rightarrow> trainer_state \<Rightarrow> outcome" where
  "done_epochs_steps 0 s = (None, s)"
| "done_epochs_steps (Suc n) s =
     (case StepLR_step (lr_scheduler s) of
        Inl err \<Rightarrow> (Some err, s)
      | Inr sch \<Rightarrow> done_epochs_steps n (emit [LrSchedulerStep] (s\<lparr>lr_scheduler := sch\<rparr>)))"

text \<open>
  Lines 27 to 62, up to the loop over the epochs: the trackers start at the sentinel, the
  schedule is built on the optimizer (restored first when \<open>local\<close> is set) and stepped
  \<open>start_epoch\<close> times, the step counter and the three accumulators are created.
\<close>

definition base_lr :: "config \<Rightarrow> env \<Rightarrow> bool \<Rightarrow> real" where
  "base_lr c e local = (if local then restored_lr e (lr c) else lr c)"

definition fresh_state :: "config \<Rightarrow> env \<Rightarrow> bool \<Rightarrow> trainer_state" where
  "fresh_state c e local =
     \<lparr>best_rmse = 9 * 10 ^ 20, is_best = False, best_test_rmse = 9 * 10 ^ 20,
      lr_scheduler = StepLR_new (base_lr c e local) (lr_scheduler_step_size c) (1 / 10),
      wandb_step = 0,
      accumulated_per_pixel_loss = RunningAverage_new,
      accumulated_feature_loss = RunningAverage_new,
      accumulated_iteration_time = RunningAverage_new,
      eta = None, optimizer_steps = 0, trace = []\<rparr>"

definition before_epochs :: "config \<Rightarrow> env \<Rightarrow> bool \<Rightarrow> outcome" where
  "before_epochs c e local =
     then_do (done_epochs_steps (nat (start_epoch c)) (fresh_state c e local))
             (\<lambda>s. (None, s\<lparr>wandb_step := start_epoch c * int (num_batches e) - 1\<rparr>))"

definition train_and_evaluate :: "config \<Rightarrow> env \<Rightarrow> bool \<Rightarrow> outcome" where
  "train_and_evaluate c e local =
     then_do (before_epochs c e local) (run_epochs c e [start_epoch c..epochs c - 1])"

subsection \<open>Reading the trace\<close>

text \<open>The step values handed to the tracking backend by scalar and image log calls, in order.\<close>

fun log_steps :: "event list \<Rightarrow> int list" where
  "log_steps [] = []"
| "log_steps (WandbLog key v step # evs) = step # log_steps evs"
| "log_steps (WandbLogImages key step # evs) = step # log_steps evs"
| "log_steps (ev # evs) = log_steps evs"

text \<open>The \<^verbatim>\<open>save_checkpoint\<close> calls, each with its iteration tag and its \<^verbatim>\<open>is_best\<close> flag.\<close>

fun checkpoints :: "event list \<Rightarrow> (int \<times> bool) list" where
  "checkpoints [] = []"
| "checkpoints (SaveCheckpoint k b # evs) = (k, b) # checkpoints evs"
| "checkpoints (ev # evs) = checkpoints evs"

text \<open>The values of the scalar log calls under one key.\<close>

fun scalar_logs :: "string \<Rightarrow> event list \<Rightarrow> real list" where
  "scalar_logs key [] = []"
| "scalar_logs key (WandbLog k v step # evs) =
     (if k = key then v # scalar_logs key evs else scalar_logs key evs)"
| "scalar_logs key (ev # evs) = scalar_logs key evs"

text \<open>
  The logged steps never decrease and none is ahead of the step counter.
\<close>

definition steps_ok :: "trainer_state \<Rightarrow> bool" where
  "steps_ok s \<longleftrightarrow>
     sorted (log_steps (trace s)) \<and> list_all (\<lambda>x. x \<le> wandb_step s) (log_steps (trace s))"

subsection \<open>Concrete runs\<close>

definition sample_obs :: "real \<Rightarrow> real \<Rightarrow> batch_obs" where
  "sample_obs r t =
     \<lparr>n_images = 2, per_pixel_loss = 1, feature_loss = 2, duration = 3,
      metrics = [(''rmse'', r)], test_loss = 1, test_metrics = [(''rmse'', t)]\<rparr>"

definition sample_config :: "int \<Rightarrow> int \<Rightarrow> config" where
  "sample_config n m =
     \<lparr>batch_size = 2, lr = 1, lr_scheduler_step_size = 2, start_epoch = 0, epochs = 1,
      training_loss_log_interval = n, other_metrics_log_interval = m, test_batch_size = 2\<rparr>"

definition sample_env :: "nat \<Rightarrow> env" where
  "sample_env n =
     \<lparr>num_batches = n,
      observe = (\<lambda>epoch iteration. if iteration = 1 then sample_obs 1 5 else sample_obs 2 3),
      restored_lr = (\<lambda>x. x)\<rparr>"

subsection \<open>Auxiliary notions\<close>

text \<open>A number of successive \<^verbatim>\<open>step()\<close> calls on a schedule.\<close>

fun StepLR_steps :: "nat \<Rightarrow> StepLR \<Rightarrow> py_error + StepLR" where
  "StepLR_steps 0 sch = Inr sch"
| "StepLR_steps (Suc n) sch =
     (case StepLR_step sch of Inl err \<Rightarrow> Inl err | Inr sch' \<Rightarrow> StepLR_steps n sch')"

text \<open>No accumulator has lost weight between two states.\<close>

definition counts_le :: "trainer_state \<Rightarrow> trainer_state \<Rightarrow> bool" where
  "counts_le s s' \<longleftrightarrow>
     ra_count (accumulated_per_pixel_loss s) \<le> ra_count (accumulated_per_pixel_loss s') \<and>
     ra_count (accumulated_feature_loss s) \<le> ra_count (accumulated_feature_loss s') \<and>
     ra_count (accumulated_iteration_time s) \<le> ra_count (accumulated_iteration_time s')"

text \<open>
  A state in which no log call and no \<^verbatim>\<open>save_checkpoint\<close> call has been made and both
  trackers still hold the sentinel.
\<close>

definition untouched :: "trainer_state \<Rightarrow> bool" where
  "untouched s \<longleftrightarrow>
     log_steps (trace s) = [] \<and> checkpoints (trace s) = [] \<and>
     best_rmse s = 9 * 10 ^ 20 \<and> best_test_rmse s = 9 * 10 ^ 20"





section \<open>Properties\<close>

subsection \<open>RunningAverage\<close>

lemma updates_sum:
  "ra_sum (updates a us) = ra_sum a + (\<Sum>(v, w)\<leftarrow>us. v * real w)"
  by (induction us arbitrary: a) (auto simp: RunningAverage_update_def)

lemma updates_count:
  "ra_count (updates a us) = ra_count a + sum_list (map snd us)"
  by (induction us arbitrary: a) (auto simp: RunningAverage_update_def)

text \<open>
  C4.  After any finite sequence of \<^verbatim>\<open>update(value, weight)\<close> calls on a new accumulator a
  read returns the sum of value times weight divided by the sum of the weights; a read
  before any update, or while the weights sum to zero, returns the empty-accumulator
  error as a value.
\<close>

theorem running_average_read:
  "RunningAverage_call RunningAverage_new = Inl EmptyAccumulator \<and>
   RunningAverage_call (updates RunningAverage_new us) =
     (if sum_list (map snd us) = 0 then Inl EmptyAccumulator
      else Inr ((\<Sum>(v, w)\<leftarrow>us. v * real w) / real (sum_list (map snd us))))"
  by (simp add: RunningAverage_call_def updates_sum updates_count RunningAverage_new_def)

theorem running_average_read_witness:
  "RunningAverage_call (updates RunningAverage_new [(2, 1), (4, 3)]) = Inr (7 / 2) \<and>
   RunningAverage_call (updates RunningAverage_new []) = Inl EmptyAccumulator"
  using running_average_read [of "[(2, 1), (4, 3)]"] running_average_read [of "[]"]
  by simp

subsection \<open>Sequencing\<close>

text \<open>
  A reflexive and transitive relation between the state before and the state after that
  every block respects is respected by the iteration, by the loops and by the epoch,
  whether they complete or raise.
\<close>

lemma rel_then_do:
  assumes "transp R" and "R s (snd r)" and "\<And>s1. R s1 (snd (g s1))"
  shows "R s (snd (then_do r g))"
proof (cases r)
  case (Pair eo s1)
  show ?thesis
  proof (cases eo)
    case None
    with Pair assms(2) have "R s s1" by simp
    moreover have "R s1 (snd (g s1))" by (rule assms(3))
    ultimately have "R s (snd (g s1))" using assms(1) by (blast dest: transpD)
    with Pair None show ?thesis by (simp add: then_do_def)
  next
    case (Some err)
    with Pair assms(2) show ?thesis by (simp add: then_do_def)
  qed
qed

lemma rel_run_iteration:
  assumes "transp R"
    and "\<And>i ob s1. R s1 (snd (train_batch e epoch i ob s1))"
    and "\<And>i s1. R s1 (snd (training_loss_log c i s1))"
    and "\<And>i ob s1. R s1 (snd (other_metrics_log c e epoch i ob s1))"
  shows "R s (snd (run_iteration c e epoch i s))"
  unfolding run_iteration_def
  by (intro rel_then_do [OF assms(1)] assms(2,3,4))

lemma rel_run_iterations:
  assumes "reflp R" and "transp R" and "\<And>i s1. R s1 (snd (run_iteration c e epoch i s1))"
  shows "R s (snd (run_iterations c e epoch its s))"
proof (induction its arbitrary: s)
  case Nil
  then show ?case using assms(1) by (simp add: reflpD)
next
  case (Cons i its)
  show ?case
    unfolding run_iterations.simps
    by (rule rel_then_do [OF assms(2)]) (rule assms(3), rule Cons.IH)
qed

lemma rel_run_epoch:
  assumes "reflp R" and "transp R"
    and "\<And>i s1. R s1 (snd (run_iteration c e epoch i s1))"
    and "\<And>s1. R s1 (s1\<lparr>wandb_step := wandb_step s1 + 1\<rparr>)"
    and "\<And>s1. R s1 (snd (epoch_end epoch s1))"
  shows "R s (snd (run_epoch c e epoch s))"
  unfolding run_epoch_def
proof (rule rel_then_do [OF assms(2)])
  have "R (s\<lparr>wandb_step := wandb_step s + 1\<rparr>)
          (snd (run_iterations c e epoch [0..<num_batches e] (s\<lparr>wandb_step := wandb_step s + 1\<rparr>)))"
    by (rule rel_run_iterations [OF assms(1,2,3)])
  with assms(4) [of s] assms(2)
  show "R s (snd (run_iterations c e epoch [0..<num_batches e] (s\<lparr>wandb_step := wandb_step s + 1\<rparr>)))"
    by (blast dest: transpD)
qed (rule assms(5))

lemma rel_run_epochs:
  assumes "reflp R" and "transp R" and "\<And>epoch s1. R s1 (snd (run_epoch c e epoch s1))"
  shows "R s (snd (run_epochs c e eps s))"
proof (induction eps arbitrary: s)
  case Nil
  then show ?case using assms(1) by (simp add: reflpD)
next
  case (Cons epoch eps)
  show ?case
    unfolding run_epochs.simps
    by (rule rel_then_do [OF assms(2)]) (rule assms(3), rule Cons.IH)
qed

lemma then_do_ok:
  "then_do r f = (None, s') \<Longrightarrow> \<exists>s1. r = (None, s1) \<and> f s1 = (None, s')"
  by (cases r; cases "fst r") (auto simp: then_do_def)

subsection \<open>The blocks of an iteration\<close>

lemma train_batch_ok: "fst (train_batch e epoch i ob s) = None"
  by (simp add: train_batch_def Let_def emit_def RunningAverage_call_def RunningAverage_update_def)

lemma train_batch_state:
  "snd (train_batch e epoch i ob s) =
     s\<lparr>accumulated_per_pixel_loss :=
         RunningAverage_update (accumulated_per_pixel_loss s) (per_pixel_loss ob) (n_images ob),
       accumulated_feature_loss :=
         RunningAverage_update (accumulated_feature_loss s) (feature_loss ob) (n_images ob),
       accumulated_iteration_time :=
         RunningAverage_update (accumulated_iteration_time s) (duration ob) 1,
       optimizer_steps := optimizer_steps s + 1,
       trace := trace s @ [TrainStep epoch i],
       eta := Some (py_int
         ((ra_sum (accumulated_iteration_time s) + duration ob)
            / real (ra_count (accumulated_iteration_time s) + 1)
          * of_int (int (num_batches e) - int i)))\<rparr>"
  by (simp add: train_batch_def Let_def emit_def RunningAverage_call_def RunningAverage_update_def)

lemma training_loss_log_state: "snd (training_loss_log c i s) = s"
  by (simp add: training_loss_log_def py_format_def split: sum.splits)

lemma training_loss_log_raises:
  "int i mod training_loss_log_interval c = 0 \<Longrightarrow> fst (training_loss_log c i s) \<noteq> None"
  by (simp add: training_loss_log_def py_format_def split: sum.splits)

lemma training_loss_log_skips:
  "training_loss_log_interval c \<noteq> 0 \<Longrightarrow> int i mod training_loss_log_interval c \<noteq> 0 \<Longrightarrow>
   training_loss_log c i s = (None, s)"
  by (simp add: training_loss_log_def)

lemma other_metrics_log_eq:
  assumes "other_metrics_log_interval c \<noteq> 0"
    and "int i mod other_metrics_log_interval c = 0"
    and "RunningAverage_call (accumulated_iteration_time s) = Inr avg"
    and "map_of (metrics ob) ''rmse'' = Some r"
    and "map_of (test_metrics ob) ''rmse'' = Some t"
  shows "other_metrics_log c e epoch i ob s =
     (None, s\<lparr>best_rmse := min (best_rmse s) r, is_best := False,
            best_test_rmse := min (best_test_rmse s) t,
            trace := trace s @ validation_events c e epoch i ob s avg
              @ (if r < best_rmse s then [SummarySet ''best_train_rmse'' r] else [])
              @ [SaveCheckpoint (wandb_step s) (is_best s \<or> r < best_rmse s)]
              @ (if t < best_test_rmse s then [SummarySet ''best_test_rmse'' t] else [])\<rparr>)"
  using assms
  by (cases "r < best_rmse s"; cases "t < best_test_rmse s")
     (auto simp: other_metrics_log_def Let_def track_best_train_def track_best_test_def
        save_checkpoint_def emit_def min_def)

lemma other_metrics_log_ok:
  assumes "other_metrics_log c e epoch i ob s = (None, s')"
    and "int i mod other_metrics_log_interval c = 0"
  shows "\<exists>avg r t.
     other_metrics_log_interval c \<noteq> 0 \<and>
     RunningAverage_call (accumulated_iteration_time s) = Inr avg \<and>
     map_of (metrics ob) ''rmse'' = Some r \<and>
     map_of (test_metrics ob) ''rmse'' = Some t"
proof -
  from assms have N: "other_metrics_log_interval c \<noteq> 0"
    by (auto simp: other_metrics_log_def)
  from assms obtain avg where A: "RunningAverage_call (accumulated_iteration_time s) = Inr avg"
    by (cases "RunningAverage_call (accumulated_iteration_time s)")
       (auto simp: other_metrics_log_def split: if_splits)
  from assms A obtain r where R: "map_of (metrics ob) ''rmse'' = Some r"
    by (cases "map_of (metrics ob) ''rmse''")
       (auto simp: other_metrics_log_def Let_def split: if_splits)
  from assms A R obtain t where T: "map_of (test_metrics ob) ''rmse'' = Some t"
    by (cases "map_of (test_metrics ob) ''rmse''")
       (auto simp: other_metrics_log_def Let_def split: if_splits)
  from N A R T show ?thesis by blast
qed

text \<open>What the metrics block leaves alone and what it may change, whatever its outcome.\<close>

lemma log_steps_append: "log_steps (xs @ ys) = log_steps xs @ log_steps ys"
  by (induction xs rule: log_steps.induct) simp_all

lemma log_steps_write_metrics: "log_steps (write_metrics ms step b) = map (\<lambda>_. step) ms"
  by (induction ms) (auto simp: write_metrics_def)

lemma log_steps_validation_events:
  "list_all (\<lambda>x. x = wandb_step s) (log_steps (validation_events c e epoch i ob s avg))"
  by (auto simp: validation_events_def compare_predictions_def log_steps_append
      log_steps_write_metrics list_all_iff)

lemmas block_defs =
  other_metrics_log_def Let_def track_best_train_def track_best_test_def
  save_checkpoint_def emit_def

lemma other_metrics_log_keeps:
  "lr_scheduler (snd (other_metrics_log c e epoch i ob s)) = lr_scheduler s"
  "wandb_step (snd (other_metrics_log c e epoch i ob s)) = wandb_step s"
  "accumulated_per_pixel_loss (snd (other_metrics_log c e epoch i ob s)) = accumulated_per_pixel_loss s"
  "accumulated_feature_loss (snd (other_metrics_log c e epoch i ob s)) = accumulated_feature_loss s"
  "accumulated_iteration_time (snd (other_metrics_log c e epoch i ob s)) = accumulated_iteration_time s"
  "optimizer_steps (snd (other_metrics_log c e epoch i ob s)) = optimizer_steps s"
  "eta (snd (other_metrics_log c e epoch i ob s)) = eta s"
  by (simp_all add: block_defs split: sum.splits option.splits)

lemma other_metrics_log_trackers:
  "best_rmse (snd (other_metrics_log c e epoch i ob s)) \<le> best_rmse s"
  "best_test_rmse (snd (other_metrics_log c e epoch i ob s)) \<le> best_test_rmse s"
  by (simp_all add: block_defs split: sum.splits option.splits)

lemma other_metrics_log_trace:
  "\<exists>evs. trace (snd (other_metrics_log c e epoch i ob s)) = trace s @ evs \<and>
         list_all (\<lambda>x. x = wandb_step s) (log_steps evs)"
proof -
  have V: "list_all (\<lambda>x. x = wandb_step s) (log_steps (validation_events c e epoch i ob s avg @ evs))"
    if "log_steps evs = []" for avg evs
    using log_steps_validation_events [of s c e epoch i ob avg] that
    by (simp add: log_steps_append)
  show ?thesis
    using V V [of "[]"]
    by (auto simp: block_defs split: sum.splits option.splits)
qed

lemma checkpoints_append: "checkpoints (xs @ ys) = checkpoints xs @ checkpoints ys"
  by (induction xs rule: checkpoints.induct) simp_all

lemma checkpoints_write_metrics: "checkpoints (write_metrics ms step b) = []"
  by (induction ms) (auto simp: write_metrics_def)

lemma checkpoints_validation_events: "checkpoints (validation_events c e epoch i ob s avg) = []"
  by (simp add: validation_events_def compare_predictions_def checkpoints_append
      checkpoints_write_metrics)

subsection \<open>The first batch of an epoch\<close>

text \<open>
  Iteration 0 passes the interval test of line 97 for every interval other than zero, so
  the first batch of an epoch reaches the format operation of line 99, which raises; with
  an interval of zero the test itself raises.  A run with an epoch to do and a batch in
  the training set therefore ends in its first iteration with an exception, after one
  optimizer step and before any log call.
\<close>

lemma run_iteration_zero:
  "fst (run_iteration c e epoch 0 s) \<noteq> None \<and>
   snd (run_iteration c e epoch 0 s) = snd (train_batch e epoch 0 (observe e epoch 0) s)"
proof -
  let ?t = "train_batch e epoch 0 (observe e epoch 0) s"
  let ?l = "training_loss_log c 0 (snd ?t)"
  have T: "?t = (None, snd ?t)"
    using train_batch_ok [of e epoch 0 "observe e epoch 0" s] by (simp add: prod_eq_iff)
  have "fst ?l \<noteq> None" by (rule training_loss_log_raises) simp
  then obtain err where L: "?l = (Some err, snd ?t)"
    using training_loss_log_state [of c 0 "snd ?t"] by (cases ?l) auto
  have "run_iteration c e epoch 0 s = (Some err, snd ?t)"
    unfolding run_iteration_def
    by (subst T) (simp add: then_do_def L)
  then show ?thesis by simp
qed

lemma run_epoch_raises:
  assumes "0 < num_batches e"
  shows "fst (run_epoch c e epoch s) \<noteq> None"
proof -
  let ?s = "s\<lparr>wandb_step := wandb_step s + 1\<rparr>"
  from assms have U: "[0..<num_batches e] = 0 # [1..<num_batches e]"
    by (simp add: upt_conv_Cons)
  obtain err s1 where "run_iteration c e epoch 0 ?s = (Some err, s1)"
    using run_iteration_zero [of c e epoch ?s] by (cases "run_iteration c e epoch 0 ?s") auto
  then show ?thesis
    by (simp add: run_epoch_def U then_do_def)
qed

lemma train_and_evaluate_raises:
  assumes "0 < num_batches e" and "start_epoch c < epochs c"
  shows "fst (train_and_evaluate c e local) \<noteq> None"
proof (cases "before_epochs c e local")
  case (Pair eo s)
  from assms(2) have U: "[start_epoch c..epochs c - 1] = start_epoch c # [start_epoch c + 1..epochs c - 1]"
    by (simp add: upto_rec1)
  obtain err s1 where "run_epoch c e (start_epoch c) s = (Some err, s1)"
    using run_epoch_raises [OF assms(1), of c "start_epoch c" s]
    by (cases "run_epoch c e (start_epoch c) s") auto
  with Pair show ?thesis
    by (cases eo) (simp_all add: train_and_evaluate_def U then_do_def)
qed

text \<open>
  An epoch therefore completes only on an empty training set, and no run ever makes a log
  call or a \<^verbatim>\<open>save_checkpoint\<close> call or moves a tracker off the sentinel.
\<close>

lemma run_epoch_no_batches:
  "num_batches e = 0 \<Longrightarrow>
   run_epoch c e epoch s = epoch_end epoch (s\<lparr>wandb_step := wandb_step s + 1\<rparr>)"
  by (simp add: run_epoch_def then_do_def)

lemma run_epoch_first_batch:
  assumes "0 < num_batches e"
  shows "fst (run_epoch c e epoch s) \<noteq> None \<and>
         snd (run_epoch c e epoch s) =
           snd (train_batch e epoch 0 (observe e epoch 0) (s\<lparr>wandb_step := wandb_step s + 1\<rparr>))"
proof -
  let ?s = "s\<lparr>wandb_step := wandb_step s + 1\<rparr>"
  from assms have U: "[0..<num_batches e] = 0 # [1..<num_batches e]"
    by (simp add: upt_conv_Cons)
  obtain err where "run_iteration c e epoch 0 ?s =
      (Some err, snd (train_batch e epoch 0 (observe e epoch 0) ?s))"
    using run_iteration_zero [of c e epoch ?s] by (cases "run_iteration c e epoch 0 ?s") auto
  then show ?thesis
    by (simp add: run_epoch_def U then_do_def)
qed


lemma untouched_epoch_end: "untouched s \<Longrightarrow> untouched (snd (epoch_end epoch s))"
  by (cases "StepLR_step (lr_scheduler s)")
     (simp_all add: epoch_end_def emit_def untouched_def log_steps_append checkpoints_append)

lemma untouched_run_epoch: "untouched s \<longrightarrow> untouched (snd (run_epoch c e epoch s))"
proof (cases "num_batches e = 0")
  case True
  have "untouched s \<Longrightarrow> untouched (s\<lparr>wandb_step := wandb_step s + 1\<rparr>)"
    by (simp add: untouched_def)
  with True show ?thesis
    by (auto simp: run_epoch_no_batches intro: untouched_epoch_end)
next
  case False
  then have "snd (run_epoch c e epoch s) =
      snd (train_batch e epoch 0 (observe e epoch 0) (s\<lparr>wandb_step := wandb_step s + 1\<rparr>))"
    using run_epoch_first_batch [of e c epoch s] by simp
  then show ?thesis
    by (simp add: train_batch_state untouched_def log_steps_append checkpoints_append)
qed

lemma untouched_refl_trans:
  "reflp (\<lambda>s s'. untouched s \<longrightarrow> untouched s')" "transp (\<lambda>s s'. untouched s \<longrightarrow> untouched s')"
  by (auto intro: reflpI transpI)

lemma done_epochs_steps_untouched:
  "untouched s \<Longrightarrow> untouched (snd (done_epochs_steps n s))"
proof (induction n arbitrary: s)
  case 0
  then show ?case by simp
next
  case (Suc n)
  show ?case
  proof (cases "StepLR_step (lr_scheduler s)")
    case (Inl err)
    with Suc.prems show ?thesis by simp
  next
    case (Inr sch)
    have "untouched (emit [LrSchedulerStep] (s\<lparr>lr_scheduler := sch\<rparr>))"
      using Suc.prems by (simp add: untouched_def emit_def log_steps_append checkpoints_append)
    from Suc.IH [OF this] Inr show ?thesis by simp
  qed
qed

lemma untouched_before_epochs: "untouched (snd (before_epochs c e local))"
proof -
  let ?r = "done_epochs_steps (nat (start_epoch c)) (fresh_state c e local)"
  have "untouched (fresh_state c e local)"
    by (simp add: untouched_def fresh_state_def)
  then have "untouched (snd ?r)" by (rule done_epochs_steps_untouched)
  then show ?thesis
    by (cases ?r; cases "fst ?r") (auto simp: before_epochs_def then_do_def untouched_def)
qed

lemma no_run_logs_or_checkpoints: "untouched (snd (train_and_evaluate c e local))"
proof -
  let ?R = "\<lambda>s s'. untouched s \<longrightarrow> untouched s'"
  have E: "?R s (snd (run_epochs c e eps s))" for s eps
    by (rule rel_run_epochs [where R = ?R]) (simp_all add: untouched_refl_trans untouched_run_epoch)
  have "?R (snd (before_epochs c e local)) (snd (train_and_evaluate c e local))"
    unfolding train_and_evaluate_def
    by (rule rel_then_do [where R = ?R]) (simp_all add: untouched_refl_trans E)
  then show ?thesis by (simp add: untouched_before_epochs)
qed

subsection \<open>Best-metric trackers\<close>

text \<open>
  C1.  The training set has four batches, \<^verbatim>\<open>other_metrics_log_interval\<close> is 1 and
  \<^verbatim>\<open>training_loss_log_interval\<close> is 3.  Iteration 0 of the first epoch is a metrics-log
  iteration and the training RMSE of its batch, 2, is below the sentinel, a new strict
  minimum.  The run raises TypeError in that iteration, before the metrics are computed:
  both trackers still hold the sentinel and the trace holds no \<^verbatim>\<open>save_checkpoint\<close> call.
\<close>

theorem first_metrics_iteration_not_tracked:
  "int 0 mod other_metrics_log_interval (sample_config 3 1) = 0 \<and>
   map_of (metrics (observe (sample_env 4) 0 0)) ''rmse'' = Some 2 \<and>
   fst (train_and_evaluate (sample_config 3 1) (sample_env 4) False) = Some TypeError \<and>
   best_rmse (snd (train_and_evaluate (sample_config 3 1) (sample_env 4) False)) = 9 * 10 ^ 20 \<and>
   best_test_rmse (snd (train_and_evaluate (sample_config 3 1) (sample_env 4) False)) = 9 * 10 ^ 20 \<and>
   checkpoints (trace (snd (train_and_evaluate (sample_config 3 1) (sample_env 4) False))) = []"
  by code_simp

subsection \<open>The running-average accumulators in the loop\<close>

lemma counts_le_refl_trans: "reflp counts_le" "transp counts_le"
  by (auto simp: counts_le_def intro!: reflpI transpI)

lemma counts_le_run_iteration: "counts_le s (snd (run_iteration c e epoch i s))"
  by (rule rel_run_iteration [where R = counts_le])
     (simp_all add: counts_le_refl_trans counts_le_def train_batch_state training_loss_log_state
        other_metrics_log_keeps RunningAverage_update_def)

lemma counts_le_epoch_end: "counts_le s (snd (epoch_end epoch s))"
  by (cases "StepLR_step (lr_scheduler s)") (simp_all add: epoch_end_def emit_def counts_le_def)

lemma counts_le_next_step: "counts_le s (s\<lparr>wandb_step := wandb_step s + 1\<rparr>)"
  by (simp add: counts_le_def)

lemma counts_le_run_epoch: "counts_le s (snd (run_epoch c e epoch s))"
  by (rule rel_run_epoch [where R = counts_le])
     (simp_all add: counts_le_refl_trans counts_le_run_iteration counts_le_epoch_end
        counts_le_next_step)

lemma counts_le_run_epochs: "counts_le s (snd (run_epochs c e eps s))"
  by (rule rel_run_epochs [where R = counts_le])
     (simp_all add: counts_le_refl_trans counts_le_run_epoch)








subsection \<open>The learning-rate schedule\<close>

lemma sched_refl_trans:
  "reflp (\<lambda>s s'. lr_scheduler s' = lr_scheduler s)" "transp (\<lambda>s s'. lr_scheduler s' = lr_scheduler s)"
  by (auto intro!: reflpI transpI)

lemma sched_run_iteration: "lr_scheduler (snd (run_iteration c e epoch i s)) = lr_scheduler s"
  by (rule rel_run_iteration [where R = "\<lambda>s s'. lr_scheduler s' = lr_scheduler s"])
     (simp_all add: sched_refl_trans train_batch_state training_loss_log_state
        other_metrics_log_keeps)

lemma sched_run_iterations: "lr_scheduler (snd (run_iterations c e epoch its s)) = lr_scheduler s"
  by (rule rel_run_iterations [where R = "\<lambda>s s'. lr_scheduler s' = lr_scheduler s"])
     (simp_all add: sched_refl_trans sched_run_iteration)

lemma run_epoch_sched:
  assumes "run_epoch c e epoch s = (None, s')"
  shows "StepLR_step (lr_scheduler s) = Inr (lr_scheduler s')"
proof -
  from assms obtain s1
    where I: "run_iterations c e epoch [0..<num_batches e] (s\<lparr>wandb_step := wandb_step s + 1\<rparr>) = (None, s1)"
      and E: "epoch_end epoch s1 = (None, s')"
    unfolding run_epoch_def by (blast dest: then_do_ok)
  from sched_run_iterations [of c e epoch "[0..<num_batches e]" "s\<lparr>wandb_step := wandb_step s + 1\<rparr>"] I
  have "lr_scheduler s1 = lr_scheduler s" by simp
  with E show ?thesis
    by (cases "StepLR_step (lr_scheduler s)") (auto simp: epoch_end_def emit_def)
qed

lemma run_epochs_sched:
  "run_epochs c e eps s = (None, s') \<Longrightarrow>
   StepLR_steps (length eps) (lr_scheduler s) = Inr (lr_scheduler s')"
proof (induction eps arbitrary: s)
  case Nil
  then show ?case by simp
next
  case (Cons epoch eps)
  from Cons.prems obtain s1 where A: "run_epoch c e epoch s = (None, s1)"
    and B: "run_epochs c e eps s1 = (None, s')"
    by (auto dest: then_do_ok)
  from run_epoch_sched [OF A] Cons.IH [OF B] show ?case by simp
qed








subsection \<open>One epoch of two batches\<close>

text \<open>
  C5.  With \<open>epochs = 1\<close>, \<open>start_epoch = 0\<close>, \<open>batch_size = 2\<close>, both intervals 1 and two
  batches in the training set, the run raises TypeError in its first iteration: one
  optimizer step, no step of the schedule and no epoch checkpoint.
\<close>

theorem one_epoch_two_batches:
  "train_and_evaluate (sample_config 1 1) (sample_env 2) False =
     (Some TypeError,
      (fresh_state (sample_config 1 1) (sample_env 2) False)
        \<lparr>wandb_step := 0,
         accumulated_per_pixel_loss := \<lparr>ra_sum = 2, ra_count = 2\<rparr>,
         accumulated_feature_loss := \<lparr>ra_sum = 4, ra_count = 2\<rparr>,
         accumulated_iteration_time := \<lparr>ra_sum = 3, ra_count = 1\<rparr>,
         eta := Some 6, optimizer_steps := 1, trace := [TrainStep 0 0]\<rparr>)"
  by code_simp

subsection \<open>The ETA\<close>

text \<open>
  C6.  With one batch in the training set and an iteration that took 3 seconds, the ETA
  derived after the only iteration of the epoch is 3 seconds, the running average times
  one, although no iteration remains.
\<close>

theorem eta_after_last_iteration:
  "num_batches (sample_env 1) = 1 \<and>
   duration (observe (sample_env 1) 0 0) = 3 \<and>
   accumulated_iteration_time (snd (train_and_evaluate (sample_config 1 1) (sample_env 1) False)) =
     \<lparr>ra_sum = 3, ra_count = 1\<rparr> \<and>
   optimizer_steps (snd (train_and_evaluate (sample_config 1 1) (sample_env 1) False)) = 1 \<and>
   eta (snd (train_and_evaluate (sample_config 1 1) (sample_env 1) False)) = Some 3"
  by code_simp

subsection \<open>The training-loss log\<close>

text \<open>
  C7.  With \<^verbatim>\<open>training_loss_log_interval = 1\<close> and three batches in the training set, the
  run raises TypeError in the first batch, after its optimizer step, and the trace holds
  no scalar log of either running-average loss.
\<close>

theorem no_loss_log_with_interval_one:
  "training_loss_log_interval (sample_config 1 1) = 1 \<and>
   fst (train_and_evaluate (sample_config 1 1) (sample_env 3) False) = Some TypeError \<and>
   optimizer_steps (snd (train_and_evaluate (sample_config 1 1) (sample_env 3) False)) = 1 \<and>
   scalar_logs ''Average per-pixel loss''
     (trace (snd (train_and_evaluate (sample_config 1 1) (sample_env 3) False))) = [] \<and>
   scalar_logs ''Average feature loss''
     (trace (snd (train_and_evaluate (sample_config 1 1) (sample_env 3) False))) = []"
  by code_simp

subsection \<open>The validation-best branch\<close>

text \<open>
  C8.  When a metrics-log block completes and its validation RMSE \<open>t\<close> improves on
  \<open>best_test_rmse\<close>, the state it leaves is the state the same block leaves when the
  tracker already holds \<open>t\<close> (so that the branch of line 124 is not taken), with one more
  event at the end of the trace: the summary record of the new best value.  The branch
  thus changes the tracker and the summary only; the checkpoint calls, the optimizer
  step count and the schedule are the same.
\<close>

theorem validation_best_frame:
  assumes "other_metrics_log c e epoch i ob s = (None, s')"
    and "int i mod other_metrics_log_interval c = 0"
    and "map_of (test_metrics ob) ''rmse'' = Some t"
    and "t < best_test_rmse s"
  shows "\<exists>s''. other_metrics_log c e epoch i ob (s\<lparr>best_test_rmse := t\<rparr>) = (None, s'') \<and>
           s' = emit [SummarySet ''best_test_rmse'' t] s'' \<and>
           best_test_rmse s' = t \<and>
           checkpoints (trace s') = checkpoints (trace s'') \<and>
           optimizer_steps s' = optimizer_steps s \<and>
           lr_scheduler s' = lr_scheduler s"
proof -
  from other_metrics_log_ok [OF assms(1,2)] assms(3) obtain avg r
    where N: "other_metrics_log_interval c \<noteq> 0"
      and A: "RunningAverage_call (accumulated_iteration_time s) = Inr avg"
      and R: "map_of (metrics ob) ''rmse'' = Some r"
    by auto
  let ?u = "s\<lparr>best_test_rmse := t\<rparr>"
  have A': "RunningAverage_call (accumulated_iteration_time ?u) = Inr avg"
    using A by simp
  have V: "validation_events c e epoch i ob ?u avg = validation_events c e epoch i ob s avg"
    by (simp add: validation_events_def)
  note E1 = other_metrics_log_eq [OF N assms(2) A R assms(3), of e epoch]
  note E2 = other_metrics_log_eq [OF N assms(2) A' R assms(3), of e epoch]
  from E1 assms(1,4)
  have s': "s' = s\<lparr>best_rmse := min (best_rmse s) r, is_best := False,
            best_test_rmse := t,
            trace := trace s @ validation_events c e epoch i ob s avg
              @ (if r < best_rmse s then [SummarySet ''best_train_rmse'' r] else [])
              @ [SaveCheckpoint (wandb_step s) (is_best s \<or> r < best_rmse s)]
              @ [SummarySet ''best_test_rmse'' t]\<rparr>"
    by (simp add: min_def)
  let ?s'' = "s\<lparr>best_rmse := min (best_rmse s) r, is_best := False,
            best_test_rmse := t,
            trace := trace s @ validation_events c e epoch i ob s avg
              @ (if r < best_rmse s then [SummarySet ''best_train_rmse'' r] else [])
              @ [SaveCheckpoint (wandb_step s) (is_best s \<or> r < best_rmse s)]\<rparr>"
  from E2 V have "other_metrics_log c e epoch i ob ?u = (None, ?s'')"
    by simp
  moreover from s' have "s' = emit [SummarySet ''best_test_rmse'' t] ?s''"
    by (simp add: emit_def)
  moreover from s' have "best_test_rmse s' = t" "optimizer_steps s' = optimizer_steps s"
    "lr_scheduler s' = lr_scheduler s"
    "checkpoints (trace s') = checkpoints (trace ?s'')"
    by (simp_all add: checkpoints_append)
  ultimately show ?thesis by blast
qed

theorem validation_best_frame_witness:
  "fst (other_metrics_log (sample_config 2 1) (sample_env 4) 0 1 (sample_obs 1 5)
     (snd (train_batch (sample_env 4) 0 1 (sample_obs 1 5)
        (fresh_state (sample_config 2 1) (sample_env 4) False)))) = None \<and>
   (5::real) < 9 * 10 ^ 20 \<and>
   (\<exists>s''. other_metrics_log (sample_config 2 1) (sample_env 4) 0 1 (sample_obs 1 5)
      ((snd (train_batch (sample_env 4) 0 1 (sample_obs 1 5)
        (fresh_state (sample_config 2 1) (sample_env 4) False)))\<lparr>best_test_rmse := 5\<rparr>) = (None, s'') \<and>
      snd (other_metrics_log (sample_config 2 1) (sample_env 4) 0 1 (sample_obs 1 5)
       (snd (train_batch (sample_env 4) 0 1 (sample_obs 1 5)
         (fresh_state (sample_config 2 1) (sample_env 4) False)))) =
      emit [SummarySet ''best_test_rmse'' 5] s'')"
proof -
  let ?s = "snd (train_batch (sample_env 4) 0 1 (sample_obs 1 5)
        (fresh_state (sample_config 2 1) (sample_env 4) False))"
  let ?r = "other_metrics_log (sample_config 2 1) (sample_env 4) 0 1 (sample_obs 1 5) ?s"
  have F: "fst ?r = None" by code_simp
  then have E: "?r = (None, snd ?r)" by (simp add: prod_eq_iff)
  have M: "int 1 mod other_metrics_log_interval (sample_config 2 1) = 0"
    by (simp add: sample_config_def)
  have T: "map_of (test_metrics (sample_obs 1 5)) ''rmse'' = Some 5"
    by (simp add: sample_obs_def)
  have L: "5 < best_test_rmse ?s"
    by (simp add: train_batch_state fresh_state_def)
  from validation_best_frame [OF E M T L] F show ?thesis
    by auto
qed

subsection \<open>The step of the log events\<close>

lemma sorted_constant: "\<forall>x\<in>set xs. x = (k::int) \<Longrightarrow> sorted xs"
  by (induction xs) auto

lemma steps_ok_extend:
  assumes "steps_ok s" and "trace s' = trace s @ evs"
    and "list_all (\<lambda>x. x = wandb_step s') (log_steps evs)"
    and "wandb_step s \<le> wandb_step s'"
  shows "steps_ok s'"
  using assms
  unfolding steps_ok_def
  by (auto simp: log_steps_append sorted_append list_all_iff intro: sorted_constant)

lemma steps_ok_train_batch: "steps_ok s \<Longrightarrow> steps_ok (snd (train_batch e epoch i ob s))"
  by (rule steps_ok_extend [where evs = "[TrainStep epoch i]" and s = s])
     (simp_all add: train_batch_state)

lemma steps_ok_other_metrics_log:
  assumes "steps_ok s"
  shows "steps_ok (snd (other_metrics_log c e epoch i ob s))"
proof -
  obtain evs where T: "trace (snd (other_metrics_log c e epoch i ob s)) = trace s @ evs"
    and L: "list_all (\<lambda>x. x = wandb_step s) (log_steps evs)"
    using other_metrics_log_trace by blast
  show ?thesis
  proof (rule steps_ok_extend [where evs = evs and s = s])
    show "steps_ok s" by (rule assms)
    show "trace (snd (other_metrics_log c e epoch i ob s)) = trace s @ evs" by (rule T)
    show "list_all (\<lambda>x. x = wandb_step (snd (other_metrics_log c e epoch i ob s))) (log_steps evs)"
      using L by (simp add: other_metrics_log_keeps)
    show "wandb_step s \<le> wandb_step (snd (other_metrics_log c e epoch i ob s))"
      by (simp add: other_metrics_log_keeps)
  qed
qed

lemma steps_ok_epoch_end: "steps_ok s \<Longrightarrow> steps_ok (snd (epoch_end epoch s))"
  by (cases "StepLR_step (lr_scheduler s)")
     (simp_all add: epoch_end_def emit_def steps_ok_def log_steps_append)

lemma steps_ok_next_step: "steps_ok s \<Longrightarrow> steps_ok (s\<lparr>wandb_step := wandb_step s + 1\<rparr>)"
  by (fastforce simp: steps_ok_def list_all_iff)

lemma steps_ok_refl_trans:
  "reflp (\<lambda>s s'. steps_ok s \<longrightarrow> steps_ok s')" "transp (\<lambda>s s'. steps_ok s \<longrightarrow> steps_ok s')"
  by (auto intro: reflpI transpI)

lemma steps_ok_run_iteration:
  "steps_ok s \<longrightarrow> steps_ok (snd (run_iteration c e epoch i s))"
  by (rule rel_run_iteration [where R = "\<lambda>s s'. steps_ok s \<longrightarrow> steps_ok s'"])
     (simp_all add: steps_ok_refl_trans steps_ok_train_batch training_loss_log_state
        steps_ok_other_metrics_log)

lemma steps_ok_run_iterations:
  "steps_ok s \<longrightarrow> steps_ok (snd (run_iterations c e epoch its s))"
  by (rule rel_run_iterations [where R = "\<lambda>s s'. steps_ok s \<longrightarrow> steps_ok s'"])
     (simp_all add: steps_ok_refl_trans steps_ok_run_iteration)

lemma steps_ok_run_epoch:
  "steps_ok s \<longrightarrow> steps_ok (snd (run_epoch c e epoch s))"
  by (rule rel_run_epoch [where R = "\<lambda>s s'. steps_ok s \<longrightarrow> steps_ok s'"])
     (simp_all add: steps_ok_refl_trans steps_ok_run_iteration steps_ok_next_step
        steps_ok_epoch_end)

lemma steps_ok_run_epochs:
  "steps_ok s \<longrightarrow> steps_ok (snd (run_epochs c e eps s))"
  by (rule rel_run_epochs [where R = "\<lambda>s s'. steps_ok s \<longrightarrow> steps_ok s'"])
     (simp_all add: steps_ok_refl_trans steps_ok_run_epoch)

lemma done_epochs_steps_log_steps:
  "log_steps (trace (snd (done_epochs_steps n s))) = log_steps (trace s)"
  by (induction n arbitrary: s)
     (auto simp: emit_def log_steps_append split: sum.splits)

lemma steps_ok_before_epochs: "steps_ok (snd (before_epochs c e local))"
proof -
  let ?r = "done_epochs_steps (nat (start_epoch c)) (fresh_state c e local)"
  have "log_steps (trace (snd ?r)) = []"
    by (simp add: done_epochs_steps_log_steps fresh_state_def)
  then show ?thesis
    by (cases ?r; cases "fst ?r") (auto simp: before_epochs_def then_do_def steps_ok_def)
qed

text \<open>
  C9.  Over a whole run, completed or not, the steps handed to the tracking backend with
  the scalar and image log events never decrease.  The invariant behind it (\<open>steps_ok\<close>:
  the logged steps are sorted and none is ahead of the step counter) is kept by any
  iterations and any epochs, from any state.
\<close>

theorem wandb_steps_never_decrease:
  "sorted (log_steps (trace (snd (train_and_evaluate c e local)))) \<and>
   (steps_ok s \<longrightarrow>
      steps_ok (snd (run_iterations c e epoch its s)) \<and> steps_ok (snd (run_epochs c e eps s)))"
proof -
  let ?R = "\<lambda>s s'. steps_ok s \<longrightarrow> steps_ok s'"
  have "?R (snd (before_epochs c e local)) (snd (train_and_evaluate c e local))"
    unfolding train_and_evaluate_def
    by (rule rel_then_do [where R = ?R]) (simp_all add: steps_ok_refl_trans steps_ok_run_epochs)
  then have "steps_ok (snd (train_and_evaluate c e local))"
    by (simp add: steps_ok_before_epochs)
  then show ?thesis
    using steps_ok_run_iterations [of s c e epoch its] steps_ok_run_epochs [of s c e eps]
    by (simp add: steps_ok_def)
qed

theorem wandb_steps_never_decrease_witness:
  "steps_ok (fresh_state (sample_config 2 1) (sample_env 4) False) \<and>
   steps_ok (snd (run_iterations (sample_config 2 1) (sample_env 4) 0 [1, 3]
     (fresh_state (sample_config 2 1) (sample_env 4) False))) \<and>
   log_steps (trace (snd (run_iterations (sample_config 2 1) (sample_env 4) 0 [1, 3]
     (fresh_state (sample_config 2 1) (sample_env 4) False)))) =
     [0, 0, 0, 0, 0, 0, 0, 0, 0, 0, 0, 0, 0, 0]"
proof -
  have A: "steps_ok (fresh_state (sample_config 2 1) (sample_env 4) False)"
    by (simp add: steps_ok_def fresh_state_def)
  have B: "log_steps (trace (snd (run_iterations (sample_config 2 1) (sample_env 4) 0 [1, 3]
     (fresh_state (sample_config 2 1) (sample_env 4) False)))) =
     [0, 0, 0, 0, 0, 0, 0, 0, 0, 0, 0, 0, 0, 0]"
    by code_simp
  from A B show ?thesis
    using wandb_steps_never_decrease [of "sample_config 2 1" "sample_env 4" False
        "fresh_state (sample_config 2 1) (sample_env 4) False" 0 "[1, 3]" "[]"]
    by simp
qed

subsection \<open>The first batch of an epoch and the intervals\<close>

text \<open>
  C10.  With the positive intervals 5 and 7 and three batches in the training set, the
  run ends in the first batch of its epoch with TypeError: the trace holds the optimizer
  step of that batch and nothing else, no training-loss log, no validation pass and no
  \<^verbatim>\<open>save_checkpoint\<close> call.
\<close>

theorem first_batch_with_large_intervals:
  "fst (train_and_evaluate (sample_config 5 7) (sample_env 3) False) = Some TypeError \<and>
   trace (snd (train_and_evaluate (sample_config 5 7) (sample_env 3) False)) = [TrainStep 0 0] \<and>
   checkpoints (trace (snd (train_and_evaluate (sample_config 5 7) (sample_env 3) False))) = [] \<and>
   log_steps (trace (snd (train_and_evaluate (sample_config 5 7) (sample_env 3) False))) = []"
  by code_simp

end
